theory Spec2Isabelle
  imports Main "HOL-Library.Word"
begin

unbundle bit_operations_syntax

section \<open>Python values, objects and the environment of \<open>src/utils/utils.py\<close>\<close>

text \<open>
  The object-reference pickling scheme of \<open>utils.py\<close> (\<open>to_pickle\<close>, lines 518-561, and
  \<open>from_pickle\<close>, lines 569-608) walks arbitrary Python 2 values. A value is modelled by
  the type \<open>pyval\<close>:
  \<^item> \<open>PInt\<close> is a Python \<open>int\<close>, \<open>PFloat\<close> a \<open>float\<close> given by its IEEE-754 bit pattern
    (the code only ever tests a float for truth), \<open>PStr\<close> a \<open>str\<close>/\<open>unicode\<close>;
  \<^item> \<open>PTuple\<close> and \<open>PList\<close> are exactly \<open>tuple\<close> and \<open>list\<close>; \<open>PDict\<close> is exactly \<open>dict\<close>,
    given by its \<open>items()\<close> in iteration order (the keys of a dict are pairwise distinct);
  \<^item> \<open>PSet\<close> is a \<open>set\<close>, given by the elements in iteration order: the representative of
    the objects other than tuple, dict and list that expose \<open>__iter__\<close>;
  \<^item> \<open>POrderedDict\<close> is a \<open>collections.OrderedDict\<close>, given by its \<open>items()\<close> in iteration
    order: the representative of the instances of subclasses of \<open>dict\<close>, whose type is
    not \<open>dict\<close> and whose iteration yields their keys;
  \<^item> \<open>PObj a\<close> is a reference to the instance stored at address \<open>a\<close> of the heap, an
    object that exposes no \<open>__iter__\<close>. References are needed because a typeclass and
    its database object point at each other (\<open>t.dbobj = d\<close>, \<open>d.typeclass = t\<close>).
  Values are finite trees, so a container that contains itself (on which the Python
  recursion does not end) is not a \<open>pyval\<close>.
\<close>

type_synonym addr = nat

datatype pyval =
    PNone
  | PBool bool
  | PInt int
  | PFloat "64 word"
  | PStr string
  | PTuple "pyval list"
  | PList "pyval list"
  | PDict "(pyval \<times> pyval) list"
  | PSet "pyval list"
  | POrderedDict "(pyval \<times> pyval) list"
  | PObj addr

text \<open>
  An instance, as far as the code looks at it: the name of its class
  (\<open>item.__class__.__name__\<close>), the three attributes the code probes with \<open>hasattr\<close>
  (\<open>None\<close> when the attribute does not exist) and its truth value (\<open>__nonzero__\<close>).
\<close>

record pyobj =
  class_name :: string
  attr_dbobj :: "pyval option"
  attr_id :: "pyval option"
  attr_typeclass :: "pyval option"
  nonzero :: bool

datatype error = AttributeError | TypeError | ValueError | DoesNotExist | PickleError

text \<open>
  What the decoder does to the database, in the order it does it:
  \<open>transaction.commit()\<close> and \<open>cls.objects.get(id=i)\<close>.
\<close>

datatype event = Commit | Get string pyval

text \<open>
  A row of Django's \<open>ContentType\<close> table: \<open>c.model\<close> is the lower-cased class name of the
  model, \<open>c.natural_key()\<close> is the tuple \<open>(c.app_label, c.model)\<close>, and \<open>c.model_class()\<close>
  is the model class (given by a name that identifies it), or \<open>None\<close> when the class is
  gone. Two applications may have models of the same name, so \<open>c.model\<close> does not
  identify a row; the pair \<open>(c.app_label, c.model)\<close> does.
\<close>

record content_type =
  app_label :: string
  model :: string
  model_class :: "string option"

text \<open>
  The collaborators that are not in \<open>utils.py\<close> are parameters: the heap of instances,
  the rows of \<open>ContentType.objects.all()\<close> (from which the module builds
  \<open>_FROM_MODEL_MAP\<close> and \<open>_TO_MODEL_MAP\<close> on first use), the fetch by identity
  \<open>cls.objects.get(id=i)\<close> of the storage layer, and the serializer
  (\<open>_DUMPS\<close> is \<open>to_str(pickle.dumps(data, HIGHEST_PROTOCOL))\<close>, \<open>_LOADS\<close> is
  \<open>pickle.loads(to_str(data))\<close>).
\<close>

record env =
  heap :: "addr \<Rightarrow> pyobj"
  content_types :: "content_type list"
  objects_get :: "string \<Rightarrow> pyval \<Rightarrow> error + pyval"
  DUMPS :: "pyval \<Rightarrow> error + pyval"
  LOADS :: "pyval \<Rightarrow> error + pyval"

subsection \<open>Truth, comparison with \<open>False\<close>, attributes\<close>

text \<open>
  \<open>truthy\<close> is Python's truth test (\<open>if x\<close>, \<open>not x\<close>, \<open>x and y\<close>). A float is false when
  it is \<open>0.0\<close> or \<open>-0.0\<close>, that is when all bits but the sign bit are zero.
\<close>

fun truthy :: "env \<Rightarrow> pyval \<Rightarrow> bool" where
  "truthy E PNone = False"
| "truthy E (PBool b) = b"
| "truthy E (PInt i) = (i \<noteq> 0)"
| "truthy E (PFloat w) = (push_bit 1 w \<noteq> 0)"
| "truthy E (PStr s) = (s \<noteq> [])"
| "truthy E (PTuple xs) = (xs \<noteq> [])"
| "truthy E (PList xs) = (xs \<noteq> [])"
| "truthy E (PDict kvs) = (kvs \<noteq> [])"
| "truthy E (PSet xs) = (xs \<noteq> [])"
| "truthy E (POrderedDict kvs) = (kvs \<noteq> [])"
| "truthy E (PObj a) = nonzero (heap E a)"

text \<open>
  \<open>ne_False x\<close> is \<open>x != False\<close>: \<open>False\<close>, \<open>0\<close>, \<open>0.0\<close> and \<open>-0.0\<close> are equal to \<open>False\<close>,
  everything else is not (an instance compares by identity unless its class says
  otherwise).
\<close>

fun ne_False :: "pyval \<Rightarrow> bool" where
  "ne_False (PBool b) = b"
| "ne_False (PInt i) = (i \<noteq> 0)"
| "ne_False (PFloat w) = (push_bit 1 w \<noteq> 0)"
| "ne_False v = True"

definition obj_attr :: "pyobj \<Rightarrow> string \<Rightarrow> pyval option" where
  "obj_attr ob n =
     (if n = ''dbobj'' then attr_dbobj ob
      else if n = ''id'' then attr_id ob
      else if n = ''typeclass'' then attr_typeclass ob
      else None)"

text \<open>
  \<open>getattr E v n\<close> is \<open>v.n\<close> for the attribute names \<open>dbobj\<close>, \<open>id\<close> and \<open>typeclass\<close>: it
  raises \<open>AttributeError\<close> when the attribute does not exist, as it does on every value
  of a built-in type. \<open>hasattr\<close> is Python's: true when \<open>getattr\<close> does not raise.
\<close>

fun getattr :: "env \<Rightarrow> pyval \<Rightarrow> string \<Rightarrow> error + pyval" where
  "getattr E (PObj a) n =
     (case obj_attr (heap E a) n of None \<Rightarrow> Inl AttributeError | Some v \<Rightarrow> Inr v)"
| "getattr E v n = Inl AttributeError"

definition hasattr :: "env \<Rightarrow> pyval \<Rightarrow> string \<Rightarrow> bool" where
  "hasattr E v n = (case getattr E v n of Inl e \<Rightarrow> False | Inr x \<Rightarrow> True)"

text \<open>
  \<open>hasattr(item, '__iter__')\<close>: true of tuples, dicts, lists, sets and instances of
  subclasses of \<open>dict\<close>; false of \<open>None\<close>,
  booleans, numbers, Python 2 strings and the instances \<open>PObj\<close> stands for.
\<close>

fun has_iter :: "pyval \<Rightarrow> bool" where
  "has_iter (PTuple xs) = True"
| "has_iter (PList xs) = True"
| "has_iter (PDict kvs) = True"
| "has_iter (PSet xs) = True"
| "has_iter (POrderedDict kvs) = True"
| "has_iter v = False"

fun class_name_of :: "env \<Rightarrow> pyval \<Rightarrow> string" where
  "class_name_of E (PObj a) = class_name (heap E a)"
| "class_name_of E PNone = ''NoneType''"
| "class_name_of E (PBool b) = ''bool''"
| "class_name_of E (PInt i) = ''int''"
| "class_name_of E (PFloat w) = ''float''"
| "class_name_of E (PStr s) = ''str''"
| "class_name_of E (PTuple xs) = ''tuple''"
| "class_name_of E (PList xs) = ''list''"
| "class_name_of E (PDict kvs) = ''dict''"
| "class_name_of E (PSet xs) = ''set''"
| "class_name_of E (POrderedDict kvs) = ''OrderedDict''"

definition lower_char :: "char \<Rightarrow> char" where
  "lower_char c =
     (case map_of (zip ''ABCDEFGHIJKLMNOPQRSTUVWXYZ'' ''abcdefghijklmnopqrstuvwxyz'') c of
        None \<Rightarrow> c | Some l \<Rightarrow> l)"

definition lower :: "string \<Rightarrow> string" where
  "lower s = map lower_char s"

text \<open>
  A value can be a dictionary key when it is hashable: lists, dicts and sets are not, a
  tuple is when its elements are.
\<close>

fun hashable :: "pyval \<Rightarrow> bool" where
  "hashable (PList xs) = False"
| "hashable (PDict kvs) = False"
| "hashable (PSet xs) = False"
| "hashable (POrderedDict kvs) = False"
| "hashable (PTuple xs) = list_all hashable xs"
| "hashable v = True"

section \<open>The Type-key Directory\<close>

definition natural_key :: "content_type \<Rightarrow> pyval" where
  "natural_key c = PTuple [PStr (app_label c), PStr (model c)]"

text \<open>
  Lines 535-537: \<open>_FROM_MODEL_MAP\<close> is a \<open>defaultdict(str)\<close> updated with
  \<open>dict((c.model, c.natural_key()) for c in ContentType.objects.all())\<close>; a later row
  replaces an earlier one with the same \<open>c.model\<close>, and a key that is not there (such as
  \<open>False\<close>) gives the empty string.
\<close>

definition FROM_MODEL_MAP :: "env \<Rightarrow> pyval \<Rightarrow> pyval" where
  "FROM_MODEL_MAP E k =
     (case k of
        PStr s \<Rightarrow>
          (case map_of (rev (map (\<lambda>c. (model c, natural_key c)) (content_types E))) s of
             None \<Rightarrow> PStr [] | Some nk \<Rightarrow> nk)
      | _ \<Rightarrow> PStr [])"

text \<open>
  Lines 581-583 and the first half of line 593, \<open>_TO_MODEL_MAP[item[1]].objects\<close>:
  \<open>_TO_MODEL_MAP\<close> is a \<open>defaultdict(str)\<close> updated with
  \<open>dict((c.natural_key(), c.model_class()) for c in ContentType.objects.all())\<close>. An
  unhashable key raises \<open>TypeError\<close>; a key that is not there gives the empty string and
  a row whose class is gone gives \<open>None\<close>, neither of which has an attribute \<open>objects\<close>.
\<close>

definition TO_MODEL_MAP_objects :: "env \<Rightarrow> pyval \<Rightarrow> error + string" where
  "TO_MODEL_MAP_objects E k =
     (if \<not> hashable k then Inl TypeError
      else case map_of (rev (map (\<lambda>c. (natural_key c, model_class c)) (content_types E))) k of
             None \<Rightarrow> Inl AttributeError
           | Some None \<Rightarrow> Inl AttributeError
           | Some (Some cls) \<Rightarrow> Inr cls)"

section \<open>The encoder \<open>to_pickle\<close>\<close>

text \<open>Line 515: \<open>_TO_DBOBJ = lambda o: (hasattr(o, "dbobj") and o.dbobj) or o\<close>.\<close>

definition TO_DBOBJ :: "env \<Rightarrow> pyval \<Rightarrow> pyval" where
  "TO_DBOBJ E ob =
     (case getattr E ob ''dbobj'' of
        Inl e \<Rightarrow> ob
      | Inr d \<Rightarrow> if truthy E d then d else ob)"

text \<open>Line 516: the Reference Token \<open>('__packed_dbobj__', natural_key, dbref)\<close>.\<close>

definition TO_PACKED_DBOBJ :: "pyval \<Rightarrow> pyval \<Rightarrow> pyval" where
  "TO_PACKED_DBOBJ nk dbref = PTuple [PStr ''__packed_dbobj__'', nk, dbref]"

text \<open>
  Lines 551-555, the last branch of \<open>iter_db2id\<close>. The variable \<open>item\<close> is rebound to
  \<open>_TO_DBOBJ(item)\<close>, and it is this rebound \<open>item\<close> that line 555 returns. The key of
  the directory lookup is \<open>hasattr(item, "id") and hasattr(item, '__class__') and
  item.__class__.__name__.lower()\<close>: \<open>False\<close> without an \<open>id\<close>, the lower-cased class name
  otherwise (every value has a \<open>__class__\<close>). \<open>item.id\<close> is read only when the natural
  key is true, and reading it raises when the attribute is not there.
\<close>

definition model_key :: "env \<Rightarrow> pyval \<Rightarrow> pyval" where
  "model_key E item =
     (if hasattr E item ''id'' then PStr (lower (class_name_of E item)) else PBool False)"

definition db2id_other :: "env \<Rightarrow> pyval \<Rightarrow> error + pyval" where
  "db2id_other E item0 =
     (let item = TO_DBOBJ E item0;
          nk = FROM_MODEL_MAP E (model_key E item)
      in if truthy E nk
         then (case getattr E item ''id'' of
                 Inl e \<Rightarrow> Inl e
               | Inr i \<Rightarrow> Inr (TO_PACKED_DBOBJ nk i))
         else Inr item)"

text \<open>
  Lines 539-555. \<open>type(item)\<close> is never \<open>basestring\<close>, so the first test holds of \<open>int\<close>
  and \<open>float\<close> only; strings, \<open>None\<close> and booleans are not tuples or dicts and have no
  \<open>__iter__\<close>, so they reach the last branch like an instance does. The tests
  \<open>dtype == tuple\<close> and \<open>dtype == dict\<close> compare the exact type: a set, and an instance of
  a subclass of \<open>dict\<close>, reach the \<open>__iter__\<close> branch, where the object is iterated (a
  mapping yields its keys) and a list is built. The generator expressions run from left
  to right and stop at the first exception.
\<close>

fun iter_db2id :: "env \<Rightarrow> pyval \<Rightarrow> error + pyval"
  and iter_db2id_seq :: "env \<Rightarrow> pyval list \<Rightarrow> error + pyval list"
  and iter_db2id_items :: "env \<Rightarrow> (pyval \<times> pyval) list \<Rightarrow> error + (pyval \<times> pyval) list"
where
  "iter_db2id E (PInt i) = Inr (PInt i)"
| "iter_db2id E (PFloat w) = Inr (PFloat w)"
| "iter_db2id E (PTuple xs) =
     (case iter_db2id_seq E xs of Inl e \<Rightarrow> Inl e | Inr ys \<Rightarrow> Inr (PTuple ys))"
| "iter_db2id E (PDict kvs) =
     (case iter_db2id_items E kvs of Inl e \<Rightarrow> Inl e | Inr kws \<Rightarrow> Inr (PDict kws))"
| "iter_db2id E (PList xs) =
     (case iter_db2id_seq E xs of Inl e \<Rightarrow> Inl e | Inr ys \<Rightarrow> Inr (PList ys))"
| "iter_db2id E (PSet xs) =
     (case iter_db2id_seq E xs of Inl e \<Rightarrow> Inl e | Inr ys \<Rightarrow> Inr (PList ys))"
| "iter_db2id E (POrderedDict kvs) =
     (case iter_db2id_seq E (map fst kvs) of Inl e \<Rightarrow> Inl e | Inr ys \<Rightarrow> Inr (PList ys))"
| "iter_db2id E PNone = db2id_other E PNone"
| "iter_db2id E (PBool b) = db2id_other E (PBool b)"
| "iter_db2id E (PStr s) = db2id_other E (PStr s)"
| "iter_db2id E (PObj a) = db2id_other E (PObj a)"
| "iter_db2id_seq E [] = Inr []"
| "iter_db2id_seq E (x # xs) =
     (case iter_db2id E x of
        Inl e \<Rightarrow> Inl e
      | Inr y \<Rightarrow> (case iter_db2id_seq E xs of Inl e \<Rightarrow> Inl e | Inr ys \<Rightarrow> Inr (y # ys)))"
| "iter_db2id_items E [] = Inr []"
| "iter_db2id_items E ((k, v) # kvs) =
     (case iter_db2id E v of
        Inl e \<Rightarrow> Inl e
      | Inr w \<Rightarrow> (case iter_db2id_items E kvs of
                   Inl e \<Rightarrow> Inl e
                 | Inr kws \<Rightarrow> Inr ((k, w) # kws)))"

text \<open>
  Lines 556-561. The result is serialized when \<open>do_pickle\<close> holds, unless \<open>emptypickle\<close> is
  off and the converted data is false and not equal to \<open>False\<close>. (The \<open>print\<close> of line 559
  writes to standard output only and is left out.)
\<close>

definition to_pickle :: "env \<Rightarrow> pyval \<Rightarrow> bool \<Rightarrow> bool \<Rightarrow> error + pyval" where
  "to_pickle E data do_pickle emptypickle =
     (case iter_db2id E data of
        Inl e \<Rightarrow> Inl e
      | Inr d \<Rightarrow>
          if do_pickle \<and> \<not> (\<not> emptypickle \<and> \<not> truthy E d \<and> ne_False d)
          then DUMPS E d
          else Inr d)"

section \<open>The decoder \<open>from_pickle\<close>\<close>

text \<open>
  Line 564: \<open>_IS_PACKED_DBOBJ = lambda o: type(o)== tuple and len(o)==3 and
  o[0]=='__packed_dbobj__'\<close>.
\<close>

fun IS_PACKED_DBOBJ :: "pyval \<Rightarrow> bool" where
  "IS_PACKED_DBOBJ (PTuple xs) = (length xs = 3 \<and> xs ! 0 = PStr ''__packed_dbobj__'')"
| "IS_PACKED_DBOBJ v = False"

text \<open>Line 565: \<open>_TO_TYPECLASS = lambda o: (hasattr(o, 'typeclass') and o.typeclass) or o\<close>.\<close>

definition TO_TYPECLASS :: "env \<Rightarrow> pyval \<Rightarrow> pyval" where
  "TO_TYPECLASS E ob =
     (case getattr E ob ''typeclass'' of
        Inl e \<Rightarrow> ob
      | Inr t \<Rightarrow> if truthy E t then t else ob)"

text \<open>
  Line 593: \<open>_TO_TYPECLASS(_TO_MODEL_MAP[item[1]].objects.get(id=item[2]))\<close>. The result
  comes with the database events of the call; nothing catches an exception.
\<close>

definition get_packed :: "env \<Rightarrow> pyval \<Rightarrow> pyval \<Rightarrow> (error + pyval) \<times> event list" where
  "get_packed E k i =
     (case TO_MODEL_MAP_objects E k of
        Inl e \<Rightarrow> (Inl e, [])
      | Inr cls \<Rightarrow>
          (case objects_get E cls i of
             Inl e \<Rightarrow> (Inl e, [Get cls i])
           | Inr d \<Rightarrow> (Inr (TO_TYPECLASS E d), [Get cls i])))"

text \<open>
  Lines 585-601. Each function returns its result, or the exception it raises, with the
  database events it caused up to there. As in the encoder, \<open>dtype == tuple\<close> and
  \<open>dtype == dict\<close> compare the exact type.
\<close>

fun iter_id2db :: "env \<Rightarrow> pyval \<Rightarrow> (error + pyval) \<times> event list"
  and iter_id2db_seq :: "env \<Rightarrow> pyval list \<Rightarrow> (error + pyval list) \<times> event list"
  and iter_id2db_items ::
    "env \<Rightarrow> (pyval \<times> pyval) list \<Rightarrow> (error + (pyval \<times> pyval) list) \<times> event list"
where
  "iter_id2db E (PInt i) = (Inr (PInt i), [])"
| "iter_id2db E (PFloat w) = (Inr (PFloat w), [])"
| "iter_id2db E (PTuple xs) =
     (if IS_PACKED_DBOBJ (PTuple xs)
      then (if truthy E (xs ! 2) then get_packed E (xs ! 1) (xs ! 2) else (Inr PNone, []))
      else (case iter_id2db_seq E xs of
              (Inl e, t) \<Rightarrow> (Inl e, t)
            | (Inr ys, t) \<Rightarrow> (Inr (PTuple ys), t)))"
| "iter_id2db E (PDict kvs) =
     (case iter_id2db_items E kvs of
        (Inl e, t) \<Rightarrow> (Inl e, t)
      | (Inr kws, t) \<Rightarrow> (Inr (PDict kws), t))"
| "iter_id2db E (PList xs) =
     (case iter_id2db_seq E xs of
        (Inl e, t) \<Rightarrow> (Inl e, t)
      | (Inr ys, t) \<Rightarrow> (Inr (PList ys), t))"
| "iter_id2db E (PSet xs) =
     (case iter_id2db_seq E xs of
        (Inl e, t) \<Rightarrow> (Inl e, t)
      | (Inr ys, t) \<Rightarrow> (Inr (PList ys), t))"
| "iter_id2db E (POrderedDict kvs) =
     (case iter_id2db_seq E (map fst kvs) of
        (Inl e, t) \<Rightarrow> (Inl e, t)
      | (Inr ys, t) \<Rightarrow> (Inr (PList ys), t))"
| "iter_id2db E PNone = (Inr PNone, [])"
| "iter_id2db E (PBool b) = (Inr (PBool b), [])"
| "iter_id2db E (PStr s) = (Inr (PStr s), [])"
| "iter_id2db E (PObj a) = (Inr (PObj a), [])"
| "iter_id2db_seq E [] = (Inr [], [])"
| "iter_id2db_seq E (x # xs) =
     (case iter_id2db E x of
        (Inl e, t) \<Rightarrow> (Inl e, t)
      | (Inr y, t) \<Rightarrow>
          (case iter_id2db_seq E xs of
             (Inl e, u) \<Rightarrow> (Inl e, t @ u)
           | (Inr ys, u) \<Rightarrow> (Inr (y # ys), t @ u)))"
| "iter_id2db_items E [] = (Inr [], [])"
| "iter_id2db_items E ((k, v) # kvs) =
     (case iter_id2db E v of
        (Inl e, t) \<Rightarrow> (Inl e, t)
      | (Inr w, t) \<Rightarrow>
          (case iter_id2db_items E kvs of
             (Inl e, u) \<Rightarrow> (Inl e, t @ u)
           | (Inr kws, u) \<Rightarrow> (Inr ((k, w) # kws), t @ u)))"

text \<open>
  Lines 602-608: unpickle when asked to, then \<open>transaction.commit()\<close>, then the recursive
  conversion. When \<open>_LOADS\<close> raises, nothing else happens. (The decorator
  \<open>transaction.autocommit\<close> of line 568 sets the transaction mode of the call and adds no
  event of its own.)
\<close>

definition from_pickle :: "env \<Rightarrow> pyval \<Rightarrow> bool \<Rightarrow> (error + pyval) \<times> event list" where
  "from_pickle E data do_pickle =
     (case (if do_pickle then LOADS E data else Inr data) of
        Inl e \<Rightarrow> (Inl e, [])
      | Inr d \<Rightarrow> (case iter_id2db E d of (r, t) \<Rightarrow> (r, Commit # t)))"

section \<open>Predicates used in the statements\<close>

text \<open>
  A float is a NaN when its exponent bits are all ones and its fraction is not zero: with
  the sign bit shifted out, the bit pattern is above that of infinity.
\<close>

definition is_nan :: "64 word \<Rightarrow> bool" where
  "is_nan w = (0xFFE0000000000000 < push_bit 1 w)"

text \<open>
  \<open>plain v\<close>: the value is built from \<open>None\<close>, booleans, ints, floats other than NaN,
  strings and objects whose type is exactly \<open>tuple\<close>, \<open>list\<close> or \<open>dict\<close>, keys included:
  no instance, no set and no instance of a subclass of a container. On these values two
  structurally identical values are equal under Python's \<open>==\<close>. (A NaN is not equal to
  itself.)
\<close>

fun plain :: "pyval \<Rightarrow> bool" where
  "plain (PFloat w) = (\<not> is_nan w)"
| "plain (PTuple xs) = list_all plain xs"
| "plain (PList xs) = list_all plain xs"
| "plain (PDict kvs) = (list_all plain (map fst kvs) \<and> list_all plain (map snd kvs))"
| "plain (PSet xs) = False"
| "plain (POrderedDict kvs) = False"
| "plain (PObj a) = False"
| "plain v = True"

text \<open>
  \<open>no_packed v\<close>: none of the tuples the decoder visits in \<open>v\<close> has the shape of a
  Reference Token. The decoder does not visit the keys of a dict; it visits the keys of
  an instance of a subclass of \<open>dict\<close>.
\<close>

fun no_packed :: "pyval \<Rightarrow> bool" where
  "no_packed (PTuple xs) = (\<not> IS_PACKED_DBOBJ (PTuple xs) \<and> list_all no_packed xs)"
| "no_packed (PList xs) = list_all no_packed xs"
| "no_packed (PDict kvs) = list_all no_packed (map snd kvs)"
| "no_packed (PSet xs) = list_all no_packed xs"
| "no_packed (POrderedDict kvs) = list_all no_packed (map fst kvs)"
| "no_packed v = True"

text \<open>\<open>is_get e\<close>: the event is a fetch by identity.\<close>

fun is_get :: "event \<Rightarrow> bool" where
  "is_get (Get cls i) = True"
| "is_get Commit = False"

section \<open>Two concrete worlds\<close>

text \<open>
  The concrete instances below are evaluated in this world. Its heap holds a typeclass
  \<open>Character\<close> (address 0) and its database object (address 1, identity 7), which point
  at each other; a database object with identity 0 (address 2); a \<open>Handler\<close> (address 3)
  whose \<open>dbobj\<close> attribute is the plain \<open>Thing\<close> at address 4; a database object without
  typeclass (address 5, identity 8); and plain \<open>Thing\<close>s everywhere else. The directory
  knows the model \<open>objectdb\<close> only, and the storage holds the identities 7, 0 and 8 of
  that model. The serializer wraps a value in a tagged pair.
\<close>

definition world :: env where
  "world =
     \<lparr> heap = (\<lambda>a.
          if a = 0 then \<lparr> class_name = ''Character'', attr_dbobj = Some (PObj 1),
                             attr_id = None, attr_typeclass = None, nonzero = True \<rparr>
          else if a = 1 then \<lparr> class_name = ''ObjectDB'', attr_dbobj = None,
                             attr_id = Some (PInt 7), attr_typeclass = Some (PObj 0),
                             nonzero = True \<rparr>
          else if a = 2 then \<lparr> class_name = ''ObjectDB'', attr_dbobj = None,
                             attr_id = Some (PInt 0), attr_typeclass = None,
                             nonzero = True \<rparr>
          else if a = 3 then \<lparr> class_name = ''Handler'', attr_dbobj = Some (PObj 4),
                             attr_id = None, attr_typeclass = None, nonzero = True \<rparr>
          else if a = 5 then \<lparr> class_name = ''ObjectDB'', attr_dbobj = None,
                             attr_id = Some (PInt 8), attr_typeclass = None,
                             nonzero = True \<rparr>
          else \<lparr> class_name = ''Thing'', attr_dbobj = None, attr_id = None,
                   attr_typeclass = None, nonzero = True \<rparr>),
       content_types =
         [\<lparr> app_label = ''objects'', model = ''objectdb'', model_class = Some ''ObjectDB'' \<rparr>],
       objects_get = (\<lambda>cls i.
          if cls = ''ObjectDB'' \<and> i = PInt 7 then Inr (PObj 1)
          else if cls = ''ObjectDB'' \<and> i = PInt 0 then Inr (PObj 2)
          else if cls = ''ObjectDB'' \<and> i = PInt 8 then Inr (PObj 5)
          else Inl DoesNotExist),
       DUMPS = (\<lambda>v. Inr (PTuple [PStr ''pickled'', v])),
       LOADS = (\<lambda>v. case v of PTuple [PStr s, d] \<Rightarrow> Inr d | _ \<Rightarrow> Inl PickleError) \<rparr>"

text \<open>
  The same world with a second application \<open>legacy\<close> that has a model of the same name
  \<open>objectdb\<close>, registered after the first and with nothing in its storage.
\<close>

definition shadowed_world :: env where
  "shadowed_world =
     world \<lparr> content_types :=
         [\<lparr> app_label = ''objects'', model = ''objectdb'', model_class = Some ''ObjectDB'' \<rparr>,
          \<lparr> app_label = ''legacy'', model = ''objectdb'',
            model_class = Some ''legacy.ObjectDB'' \<rparr>] \<rparr>"

section \<open>Lemmas about the two walks\<close>

lemmas world_simps =
  world_def to_pickle_def from_pickle_def db2id_other_def TO_DBOBJ_def TO_TYPECLASS_def
  model_key_def hasattr_def obj_attr_def lower_def lower_char_def FROM_MODEL_MAP_def
  TO_MODEL_MAP_objects_def natural_key_def TO_PACKED_DBOBJ_def get_packed_def

lemma db2id_other_builtin:
  "getattr E v ''dbobj'' = Inl AttributeError \<Longrightarrow> getattr E v ''id'' = Inl AttributeError
   \<Longrightarrow> db2id_other E v = Inr v"
  by (simp add: db2id_other_def TO_DBOBJ_def model_key_def hasattr_def FROM_MODEL_MAP_def)

lemma iter_db2id_plain:
  "plain v \<Longrightarrow> iter_db2id E v = Inr v"
  "list_all plain vs \<Longrightarrow> iter_db2id_seq E vs = Inr vs"
  "list_all plain (map snd kvs) \<Longrightarrow> iter_db2id_items E kvs = Inr kvs"
  by (induction E v and E vs and E kvs rule: iter_db2id_iter_db2id_seq_iter_db2id_items.induct)
     (simp_all add: db2id_other_builtin)

lemma iter_id2db_plain:
  "plain v \<Longrightarrow> no_packed v \<Longrightarrow> iter_id2db E v = (Inr v, [])"
  "list_all plain vs \<Longrightarrow> list_all no_packed vs \<Longrightarrow> iter_id2db_seq E vs = (Inr vs, [])"
  "list_all plain (map snd kvs) \<Longrightarrow> list_all no_packed (map snd kvs)
     \<Longrightarrow> iter_id2db_items E kvs = (Inr kvs, [])"
  by (induction E v and E vs and E kvs rule: iter_id2db_iter_id2db_seq_iter_id2db_items.induct)
     auto

text \<open>The encoder has no failing branch: \<open>item.id\<close> is read only where it exists.\<close>

lemma iter_db2id_total:
  "\<exists>r. iter_db2id E v = Inr r"
  "\<exists>rs. iter_db2id_seq E vs = Inr rs"
  "\<exists>kws. iter_db2id_items E kvs = Inr kws"
  by (induction E v and E vs and E kvs rule: iter_db2id_iter_db2id_seq_iter_db2id_items.induct)
     (auto simp: db2id_other_def Let_def model_key_def hasattr_def FROM_MODEL_MAP_def
           split: sum.splits option.splits)

lemma iter_db2id_no_iter:
  "\<not> has_iter v \<Longrightarrow> \<not> truthy E (FROM_MODEL_MAP E (model_key E (TO_DBOBJ E v)))
     \<Longrightarrow> iter_db2id E v = Inr (TO_DBOBJ E v)"
  by (cases v) (simp_all add: db2id_other_def TO_DBOBJ_def)

lemma iter_id2db_no_iter: "\<not> has_iter v \<Longrightarrow> iter_id2db E v = (Inr v, [])"
  by (cases v) simp_all


lemma iter_id2db_seq_length:
  "iter_id2db_seq E xs = (Inr ys, t) \<Longrightarrow> length ys = length xs"
  by (induction xs arbitrary: ys t) (auto split: prod.splits sum.splits)

text \<open>The walk of a dict is the walk of its values; the keys are put back as they were.\<close>

lemma iter_id2db_items_values:
  "iter_id2db_items E kvs =
     (case iter_id2db_seq E (map snd kvs) of
        (Inl e, t) \<Rightarrow> (Inl e, t)
      | (Inr ys, t) \<Rightarrow> (Inr (zip (map fst kvs) ys), t))"
  by (induction kvs) (auto split: prod.splits sum.splits)

text \<open>The recursive conversion fetches and never commits.\<close>

lemma get_packed_events: "list_all is_get (snd (get_packed E k i))"
  by (simp add: get_packed_def split: sum.splits)

lemma iter_id2db_events:
  "list_all is_get (snd (iter_id2db E v))"
  "list_all is_get (snd (iter_id2db_seq E vs))"
  "list_all is_get (snd (iter_id2db_items E kvs))"
  by (induction E v and E vs and E kvs rule: iter_id2db_iter_id2db_seq_iter_id2db_items.induct)
     (auto simp: get_packed_events split: prod.splits sum.splits)


section \<open>The claims\<close>

subsection \<open>C1: round trip of plain data\<close>

text \<open>
  C1 (as amended). For every value built only of \<open>None\<close>, booleans, ints, floats other
  than NaN, strings and objects of the exact types \<open>list\<close>, \<open>tuple\<close> and \<open>dict\<close> (keys
  included), in which no tuple visited by the decoder has the shape of a Reference Token
  (three elements, the first the string \<open>__packed_dbobj__\<close>), encoding without pickling
  returns the value itself, and decoding that without unpickling returns the value again,
  after one commit and no fetch. The value returned is structurally identical to the
  original, which on these values makes it equal to the original under Python's \<open>==\<close>.
\<close>

theorem plain_round_trip:
  assumes "plain v" and "no_packed v"
  shows "to_pickle E v False emptypickle = Inr v
         \<and> from_pickle E v False = (Inr v, [Commit])"
proof -
  have "iter_db2id E v = Inr v"
    using assms(1) by (rule iter_db2id_plain)
  moreover have "iter_id2db E v = (Inr v, [])"
    using assms by (rule iter_id2db_plain)
  ultimately show ?thesis
    by (simp add: to_pickle_def from_pickle_def)
qed

text \<open>
  The nested value \<open>{'a': [1, ('x', None), {2: True}, 1.0]}\<close> comes back as it was
  (\<open>0x3FF0000000000000\<close> is the bit pattern of \<open>1.0\<close>).
\<close>

theorem plain_round_trip_witness:
  "plain (PDict [(PStr ''a'', PList [PInt 1, PTuple [PStr ''x'', PNone],
                                      PDict [(PInt 2, PBool True)],
                                      PFloat 0x3FF0000000000000])])
   \<and> no_packed (PDict [(PStr ''a'', PList [PInt 1, PTuple [PStr ''x'', PNone],
                                             PDict [(PInt 2, PBool True)],
                                             PFloat 0x3FF0000000000000])])
   \<and> to_pickle world (PDict [(PStr ''a'', PList [PInt 1, PTuple [PStr ''x'', PNone],
                                                   PDict [(PInt 2, PBool True)],
                                                   PFloat 0x3FF0000000000000])]) False True
       = Inr (PDict [(PStr ''a'', PList [PInt 1, PTuple [PStr ''x'', PNone],
                                          PDict [(PInt 2, PBool True)],
                                          PFloat 0x3FF0000000000000])])
   \<and> from_pickle world (PDict [(PStr ''a'', PList [PInt 1, PTuple [PStr ''x'', PNone],
                                                     PDict [(PInt 2, PBool True)],
                                                     PFloat 0x3FF0000000000000])]) False
       = (Inr (PDict [(PStr ''a'', PList [PInt 1, PTuple [PStr ''x'', PNone],
                                           PDict [(PInt 2, PBool True)],
                                           PFloat 0x3FF0000000000000])]), [Commit])"
proof -
  have p: "plain (PDict [(PStr ''a'', PList [PInt 1, PTuple [PStr ''x'', PNone],
                                      PDict [(PInt 2, PBool True)],
                                      PFloat 0x3FF0000000000000])])"
    by (simp add: is_nan_def)
  have n: "no_packed (PDict [(PStr ''a'', PList [PInt 1, PTuple [PStr ''x'', PNone],
                                      PDict [(PInt 2, PBool True)],
                                      PFloat 0x3FF0000000000000])])"
    by simp
  show ?thesis
    using plain_round_trip [OF p n, of world True] p n by simp
qed

text \<open>
  C1 as stated fails: the tuple \<open>('__packed_dbobj__', 'x', 0)\<close> is built of primitive
  scalars only, the encoder returns it unchanged, and the decoder takes it for a
  Reference Token with a false identity and returns \<open>None\<close>.
\<close>

theorem plain_round_trip_counterexample:
  "plain (PTuple [PStr ''__packed_dbobj__'', PStr ''x'', PInt 0])
   \<and> to_pickle world (PTuple [PStr ''__packed_dbobj__'', PStr ''x'', PInt 0]) False True
       = Inr (PTuple [PStr ''__packed_dbobj__'', PStr ''x'', PInt 0])
   \<and> from_pickle world (PTuple [PStr ''__packed_dbobj__'', PStr ''x'', PInt 0]) False
       = (Inr PNone, [Commit])
   \<and> PNone \<noteq> PTuple [PStr ''__packed_dbobj__'', PStr ''x'', PInt 0]"
  by (simp add: world_simps)

text \<open>
  The other values the amended claim leaves out. A NaN (\<open>0x7FF8000000000000\<close>) comes back
  as the same float, which Python does not find equal to itself; and a container that is
  not exactly a list, tuple or dict, here a set, comes back as a list.
\<close>

lemma other_values_left_out:
  "is_nan 0x7FF8000000000000
   \<and> from_pickle world (PFloat 0x7FF8000000000000) False
       = (Inr (PFloat 0x7FF8000000000000), [Commit])
   \<and> to_pickle world (PSet [PInt 1]) False True = Inr (PList [PInt 1])
   \<and> from_pickle world (PList [PInt 1]) False = (Inr (PList [PInt 1]), [Commit])"
  by (simp add: world_simps is_nan_def)

subsection \<open>C2: round trip of a reference\<close>




text \<open>
  The database object on its own: the \<open>ObjectDB\<close> at address 5 (identity 8, no typeclass)
  is encoded to its token and decoded back to itself.
\<close>

lemma bare_database_object_example:
  "to_pickle world (PObj 5) False True
     = Inr (PTuple [PStr ''__packed_dbobj__'',
                    PTuple [PStr ''objects'', PStr ''objectdb''], PInt 8])
   \<and> from_pickle world
        (PTuple [PStr ''__packed_dbobj__'',
                 PTuple [PStr ''objects'', PStr ''objectdb''], PInt 8]) False
        = (Inr (PObj 5), [Commit, Get ''ObjectDB'' (PInt 8)])"
  by (simp add: world_simps)

text \<open>
  Why the row must not be shadowed. With a second application whose model has the same
  name, the entity at address 0 is still in the storage of its own class under its
  identity 7, but \<open>_FROM_MODEL_MAP\<close> gives the key of the later row, the token names the
  other application, and decoding it looks in the storage of the other class and raises.
\<close>

lemma shadowed_model_name_example:
  "objects_get shadowed_world ''ObjectDB'' (PInt 7) = Inr (PObj 1)
   \<and> to_pickle shadowed_world (PObj 0) False True
       = Inr (PTuple [PStr ''__packed_dbobj__'',
                      PTuple [PStr ''legacy'', PStr ''objectdb''], PInt 7])
   \<and> from_pickle shadowed_world
        (PTuple [PStr ''__packed_dbobj__'',
                 PTuple [PStr ''legacy'', PStr ''objectdb''], PInt 7]) False
        = (Inl DoesNotExist, [Commit, Get ''legacy.ObjectDB'' (PInt 7)])"
  by (simp add: shadowed_world_def world_simps)

subsection \<open>C3: a stale reference raises\<close>



subsection \<open>C4: a type the directory does not know\<close>

text \<open>
  C4 (as amended). For every value without \<open>__iter__\<close> for whose unwrapped form
  \<open>_TO_DBOBJ(v)\<close> the directory lookup gives no key, the encoder emits no token and raises
  nothing: it returns the unwrapped form, which is \<open>v\<close> itself when \<open>v\<close> has no true
  \<open>dbobj\<close> attribute. When the unwrapped form has no \<open>__iter__\<close> either, the decoder
  returns it unchanged.
\<close>

theorem unknown_type_pass_through:
  assumes "\<not> has_iter v"
    and "\<not> truthy E (FROM_MODEL_MAP E (model_key E (TO_DBOBJ E v)))"
  shows "to_pickle E v False emptypickle = Inr (TO_DBOBJ E v)
         \<and> (\<not> has_iter (TO_DBOBJ E v) \<longrightarrow>
              from_pickle E (TO_DBOBJ E v) False = (Inr (TO_DBOBJ E v), [Commit]))
         \<and> ((\<forall>d. getattr E v ''dbobj'' = Inr d \<longrightarrow> \<not> truthy E d) \<longrightarrow> TO_DBOBJ E v = v)"
  using assms
  by (auto simp: to_pickle_def from_pickle_def iter_db2id_no_iter iter_id2db_no_iter TO_DBOBJ_def
           split: sum.splits)

text \<open>The plain \<open>Thing\<close> at address 4 passes through both walks.\<close>

theorem unknown_type_pass_through_witness:
  "\<not> has_iter (PObj 4)
   \<and> \<not> truthy world (FROM_MODEL_MAP world (model_key world (TO_DBOBJ world (PObj 4))))
   \<and> to_pickle world (PObj 4) False True = Inr (PObj 4)
   \<and> from_pickle world (PObj 4) False = (Inr (PObj 4), [Commit])"
proof -
  have h1: "\<not> has_iter (PObj 4)" by simp
  have h2: "\<not> truthy world (FROM_MODEL_MAP world (model_key world (TO_DBOBJ world (PObj 4))))"
    by (simp add: world_simps)
  have u: "TO_DBOBJ world (PObj 4) = PObj 4" by (simp add: world_simps)
  show ?thesis
    using unknown_type_pass_through [OF h1 h2, of True] h1 h2 u by simp
qed

text \<open>
  C4 as stated fails: the directory knows neither the class \<open>Handler\<close> of the instance
  at address 3 nor the class \<open>Thing\<close> of its \<open>dbobj\<close> at address 4, and the encoder
  returns the \<open>dbobj\<close>, not the instance it was given.
\<close>

theorem unknown_type_pass_through_counterexample:
  "FROM_MODEL_MAP world (PStr (lower (class_name (heap world 3)))) = PStr []
   \<and> FROM_MODEL_MAP world (PStr (lower (class_name (heap world 4)))) = PStr []
   \<and> to_pickle world (PObj 3) False True = Inr (PObj 4)
   \<and> PObj 4 \<noteq> PObj 3"
  by (simp add: world_simps)

subsection \<open>C5: a tuple of the token's shape is a token\<close>



subsection \<open>C6: an absent identity gives \<open>None\<close>\<close>



subsection \<open>C7: serializing an empty result\<close>




subsection \<open>C8: the commit comes first\<close>

text \<open>
  C8. In every call of the decoder the database events are the commit followed by
  fetches only, so no fetch comes before the commit; or there is no event at all, which
  happens only when unpickling was asked for and raised. (Reading the rows of
  \<open>ContentType\<close> to fill the directory on first use is not a fetch of an entity by
  identity, and is not among the events.)
\<close>

theorem commit_before_fetch:
  "(\<exists>gets. snd (from_pickle E data do_pickle) = Commit # gets \<and> list_all is_get gets)
   \<or> (snd (from_pickle E data do_pickle) = [] \<and> do_pickle \<and> (\<exists>e. LOADS E data = Inl e))"
proof (cases "if do_pickle then LOADS E data else Inr data")
  case (Inl e)
  then show ?thesis by (auto simp: from_pickle_def split: if_splits)
next
  case (Inr d)
  have "list_all is_get (snd (iter_id2db E d))" by (rule iter_id2db_events)
  with Inr show ?thesis by (auto simp: from_pickle_def split: prod.splits)
qed

theorem commit_before_fetch_witness:
  "snd (from_pickle world (PList [PInt 1, (PTuple [PStr ''__packed_dbobj__'', PTuple [PStr ''objects'', PStr ''objectdb''], PInt 7])]) False)
     = [Commit, Get ''ObjectDB'' (PInt 7)]
   \<and> snd (from_pickle world (PInt 3) True) = []"
proof -
  have a: "snd (from_pickle world (PList [PInt 1, (PTuple [PStr ''__packed_dbobj__'', PTuple [PStr ''objects'', PStr ''objectdb''], PInt 7])]) False)
             = [Commit, Get ''ObjectDB'' (PInt 7)]"
    by (simp add: world_simps)
  have b: "snd (from_pickle world (PInt 3) True) = []" by (simp add: world_simps)
  show ?thesis
    using commit_before_fetch [of world "PInt 3" True] a b by simp
qed

subsection \<open>C9: the keys of a mapping\<close>

text \<open>
  C9 (as amended). When the decoder returns from an object whose type is exactly
  \<open>dict\<close>, the result is a dict with the same keys in the same order; its values and its
  database events are those of decoding the list of the values. A key of a dict is never
  decoded, even when it has the shape of a Reference Token.
\<close>

theorem mapping_keys_untouched:
  assumes "from_pickle E (PDict kvs) False = (Inr r, t)"
  shows "\<exists>kws. r = PDict kws \<and> map fst kws = map fst kvs
               \<and> from_pickle E (PList (map snd kvs)) False = (Inr (PList (map snd kws)), t)"
proof -
  obtain res u where s: "iter_id2db_seq E (map snd kvs) = (res, u)"
    by (cases "iter_id2db_seq E (map snd kvs)")
  show ?thesis
  proof (cases res)
    case (Inl e)
    with s assms show ?thesis by (simp add: from_pickle_def iter_id2db_items_values)
  next
    case (Inr ys)
    with s have len: "length ys = length kvs"
      using iter_id2db_seq_length [of E "map snd kvs" ys u] by simp
    from Inr s assms have r: "r = PDict (zip (map fst kvs) ys)" and t: "t = Commit # u"
      by (auto simp: from_pickle_def iter_id2db_items_values)
    from len have "map fst (zip (map fst kvs) ys) = map fst kvs"
      and "map snd (zip (map fst kvs) ys) = ys" by simp_all
    with r t Inr s show ?thesis by (simp add: from_pickle_def)
  qed
qed

text \<open>
  In a dict whose key and value are both the token of the entity 7, the value becomes
  the typeclass at address 0, the key stays the token, and there is one fetch.
\<close>

theorem mapping_keys_untouched_witness:
  "from_pickle world (PDict [((PTuple [PStr ''__packed_dbobj__'', PTuple [PStr ''objects'', PStr ''objectdb''], PInt 7]), (PTuple [PStr ''__packed_dbobj__'', PTuple [PStr ''objects'', PStr ''objectdb''], PInt 7]))]) False
     = (Inr (PDict [((PTuple [PStr ''__packed_dbobj__'', PTuple [PStr ''objects'', PStr ''objectdb''], PInt 7]), PObj 0)]), [Commit, Get ''ObjectDB'' (PInt 7)])
   \<and> (\<exists>kws. PDict [((PTuple [PStr ''__packed_dbobj__'', PTuple [PStr ''objects'', PStr ''objectdb''], PInt 7]), PObj 0)] = PDict kws \<and> map fst kws = [(PTuple [PStr ''__packed_dbobj__'', PTuple [PStr ''objects'', PStr ''objectdb''], PInt 7])])"
proof -
  have h: "from_pickle world (PDict [((PTuple [PStr ''__packed_dbobj__'', PTuple [PStr ''objects'', PStr ''objectdb''], PInt 7]), (PTuple [PStr ''__packed_dbobj__'', PTuple [PStr ''objects'', PStr ''objectdb''], PInt 7]))]) False
     = (Inr (PDict [((PTuple [PStr ''__packed_dbobj__'', PTuple [PStr ''objects'', PStr ''objectdb''], PInt 7]), PObj 0)]), [Commit, Get ''ObjectDB'' (PInt 7)])"
    by (simp add: world_simps)
  show ?thesis
    using mapping_keys_untouched [OF h] h by auto
qed

text \<open>
  C9 as stated fails for a mapping that is not exactly a dict. The test of line 597 is
  \<open>dtype == dict\<close>, so an \<open>OrderedDict\<close> reaches line 600, which iterates it: the decoder
  walks its keys, fetches the entity of a key that has the shape of a Reference Token,
  and returns the list of the decoded keys, which is no mapping and has lost the values.
\<close>

theorem mapping_keys_untouched_counterexample:
  "from_pickle world (POrderedDict [((PTuple [PStr ''__packed_dbobj__'', PTuple [PStr ''objects'', PStr ''objectdb''], PInt 7]), PInt 1)]) False
     = (Inr (PList [PObj 0]), [Commit, Get ''ObjectDB'' (PInt 7)])
   \<and> PList [PObj 0] \<noteq> POrderedDict [((PTuple [PStr ''__packed_dbobj__'', PTuple [PStr ''objects'', PStr ''objectdb''], PInt 7]), PInt 1)]"
  by (simp add: world_simps)

subsection \<open>C10: an object without identity\<close>

text \<open>
  C10 (as amended). For every value without \<open>__iter__\<close> whose unwrapped form
  \<open>_TO_DBOBJ(v)\<close> has no \<open>id\<close> attribute, the encoder raises nothing: the key of the
  directory lookup is \<open>False\<close>, the lookup gives the empty string, \<open>item.id\<close> (which would
  raise) is not read, and the unwrapped form is returned, which is \<open>v\<close> itself when \<open>v\<close>
  has no true \<open>dbobj\<close> attribute.
\<close>

theorem no_identity_never_raises:
  assumes "\<not> has_iter v"
    and "getattr E (TO_DBOBJ E v) ''id'' = Inl AttributeError"
  shows "model_key E (TO_DBOBJ E v) = PBool False
         \<and> FROM_MODEL_MAP E (model_key E (TO_DBOBJ E v)) = PStr []
         \<and> iter_db2id E v = Inr (TO_DBOBJ E v)
         \<and> to_pickle E v False emptypickle = Inr (TO_DBOBJ E v)
         \<and> ((\<forall>d. getattr E v ''dbobj'' = Inr d \<longrightarrow> \<not> truthy E d) \<longrightarrow>
              to_pickle E v False emptypickle = Inr v)"
proof -
  have k: "model_key E (TO_DBOBJ E v) = PBool False"
    using assms(2) by (simp add: model_key_def hasattr_def)
  then have f: "FROM_MODEL_MAP E (model_key E (TO_DBOBJ E v)) = PStr []"
    by (simp add: FROM_MODEL_MAP_def)
  then have i: "iter_db2id E v = Inr (TO_DBOBJ E v)"
    using assms(1) by (simp add: iter_db2id_no_iter)
  have u: "(\<forall>d. getattr E v ''dbobj'' = Inr d \<longrightarrow> \<not> truthy E d) \<longrightarrow> TO_DBOBJ E v = v"
    by (auto simp: TO_DBOBJ_def split: sum.splits)
  show ?thesis using k f i u by (auto simp: to_pickle_def)
qed

theorem no_identity_never_raises_witness:
  "\<not> has_iter (PObj 4)
   \<and> getattr world (TO_DBOBJ world (PObj 4)) ''id'' = Inl AttributeError
   \<and> iter_db2id world (PObj 4) = Inr (PObj 4)
   \<and> to_pickle world (PObj 4) False True = Inr (PObj 4)"
proof -
  have h1: "\<not> has_iter (PObj 4)" by simp
  have u: "TO_DBOBJ world (PObj 4) = PObj 4" by (simp add: world_simps)
  have h2: "getattr world (TO_DBOBJ world (PObj 4)) ''id'' = Inl AttributeError"
    by (simp add: world_simps)
  show ?thesis
    using no_identity_never_raises [OF h1 h2, of True] h1 h2 u by simp
qed

text \<open>
  C10 as stated fails: neither the \<open>Handler\<close> at address 3 nor its \<open>dbobj\<close> at address 4
  has an \<open>id\<close>, and the encoder returns the \<open>dbobj\<close>, not the object it was given.
\<close>

theorem no_identity_never_raises_counterexample:
  "getattr world (PObj 3) ''id'' = Inl AttributeError
   \<and> getattr world (TO_DBOBJ world (PObj 3)) ''id'' = Inl AttributeError
   \<and> iter_db2id world (PObj 3) = Inr (PObj 4)
   \<and> iter_db2id world (PObj 3) \<noteq> Inr (PObj 3)"
  by (simp add: world_simps)

end
